theory Spec2Isabelle
  imports Complex_Main
begin

section \<open>The catalog of models\<close>

text \<open>
  Both source files open with the constant array \<^verbatim>\<open>models\<close>: five object literals with
  the fields \<^verbatim>\<open>name\<close>, \<^verbatim>\<open>path\<close> and \<^verbatim>\<open>cameraPosition\<close>. A camera position is an array
  of three number literals; each literal is kept as the decimal fraction it is written as
  (\<^verbatim>\<open>0.5\<close> is \<open>1/2\<close>), which fixes the Number it denotes.
\<close>

record model =
  name :: string
  path :: string
  cameraPosition :: "rat list"

text \<open>\<^verbatim>\<open>src/src/Scene.jsx\<close>, lines 8 to 34.\<close>

definition models :: "model list" where
  "models =
    [\<lparr>name = ''Laptop'', path = ''../laptop.glb'', cameraPosition = [0, 1/2, 1/2]\<rparr>,
     \<lparr>name = ''Drone'', path = ''../drone.glb'', cameraPosition = [0, 1/10, 3/10]\<rparr>,
     \<lparr>name = ''Headset'', path = ''../headset1.glb'', cameraPosition = [0, 0, 40]\<rparr>,
     \<lparr>name = ''Wooden Box'', path = ''../wooden_box.glb'', cameraPosition = [0, 2, 5]\<rparr>,
     \<lparr>name = ''VR'', path = ''../vr.glb'', cameraPosition = [0, 0, 5/2]\<rparr>]"

section \<open>The state of the Scene component\<close>

text \<open>
  \<^verbatim>\<open>Scene\<close> holds three \<^verbatim>\<open>useState\<close> cells: \<^verbatim>\<open>currentModelIndex\<close>, \<^verbatim>\<open>isLoading\<close> and
  \<^verbatim>\<open>key\<close>. The specification calls them \<open>activeIndex\<close>, \<open>isAssetReady\<close> (the negation of
  \<^verbatim>\<open>isLoading\<close>) and \<open>generation\<close>. The two numbers are modelled as unbounded integers:
  a JavaScript Number represents every integer of magnitude below \<open>2^53\<close> exactly, and
  the counters here move by one per user event.
\<close>

record scene_state =
  currentModelIndex :: int
  isLoading :: bool
  key :: int

text \<open>The initial values of the three cells: \<^verbatim>\<open>useState(0)\<close>, \<^verbatim>\<open>useState(true)\<close>,
  \<^verbatim>\<open>useState(0)\<close>.\<close>

definition mount :: scene_state where
  "mount = \<lparr>currentModelIndex = 0, isLoading = True, key = 0\<rparr>"

text \<open>
  The remainder operator \<^verbatim>\<open>%\<close> of JavaScript truncates towards zero: the result takes the
  sign of the dividend. (For a zero divisor JavaScript yields NaN; the only divisor in this
  program is \<^verbatim>\<open>models.length\<close>, which is 5.)
\<close>

definition js_rem :: "int \<Rightarrow> int \<Rightarrow> int" where
  "js_rem a b = sgn a * (\<bar>a\<bar> mod \<bar>b\<bar>)"

section \<open>The event handlers of \<^verbatim>\<open>src/src/Scene.jsx\<close>\<close>

text \<open>
  Each handler reads \<^verbatim>\<open>isLoading\<close> and \<^verbatim>\<open>currentModelIndex\<close> of the current render and
  queues its updates; React applies them before the next event is handled. A handler is
  therefore a function from the state before the event to the state after it.
\<close>

definition handleModelLoad :: "scene_state \<Rightarrow> scene_state" where
  "handleModelLoad s = s\<lparr>isLoading := False\<rparr>"

definition nextModel :: "scene_state \<Rightarrow> scene_state" where
  "nextModel s =
    (if \<not> isLoading s then
       s\<lparr>isLoading := True,
         currentModelIndex := js_rem (currentModelIndex s + 1) (int (length models)),
         key := key s + 1\<rparr>
     else s)"

definition previousModel :: "scene_state \<Rightarrow> scene_state" where
  "previousModel s =
    (if \<not> isLoading s then
       s\<lparr>isLoading := True,
         currentModelIndex :=
           js_rem (currentModelIndex s - 1 + int (length models)) (int (length models)),
         key := key s + 1\<rparr>
     else s)"

definition selectModel :: "int \<Rightarrow> scene_state \<Rightarrow> scene_state" where
  "selectModel index s =
    (if \<not> isLoading s \<and> index \<noteq> currentModelIndex s then
       s\<lparr>isLoading := True,
         currentModelIndex := index,
         key := key s + 1\<rparr>
     else s)"

section \<open>The event handlers of \<^verbatim>\<open>src/unnamed/part_000\<close>\<close>

text \<open>
  The second source file declares its own \<^verbatim>\<open>models\<close> array (lines 7 to 33) and its own
  \<^verbatim>\<open>Scene\<close> component (lines 94 to 127). They are transcribed separately here, from that
  file, under the suffix \<open>_part_000\<close>.
\<close>

definition models_part_000 :: "model list" where
  "models_part_000 =
    [\<lparr>name = ''Laptop'', path = ''../laptop.glb'', cameraPosition = [0, 1/2, 1/2]\<rparr>,
     \<lparr>name = ''Drone'', path = ''../drone.glb'', cameraPosition = [0, 1/10, 3/10]\<rparr>,
     \<lparr>name = ''Headset'', path = ''../headset1.glb'', cameraPosition = [0, 0, 40]\<rparr>,
     \<lparr>name = ''Wooden Box'', path = ''../wooden_box.glb'', cameraPosition = [0, 2, 5]\<rparr>,
     \<lparr>name = ''VR'', path = ''../vr.glb'', cameraPosition = [0, 0, 5/2]\<rparr>]"

definition mount_part_000 :: scene_state where
  "mount_part_000 = \<lparr>currentModelIndex = 0, isLoading = True, key = 0\<rparr>"

definition handleModelLoad_part_000 :: "scene_state \<Rightarrow> scene_state" where
  "handleModelLoad_part_000 s = s\<lparr>isLoading := False\<rparr>"

definition nextModel_part_000 :: "scene_state \<Rightarrow> scene_state" where
  "nextModel_part_000 s =
    (if \<not> isLoading s then
       s\<lparr>isLoading := True,
         currentModelIndex := js_rem (currentModelIndex s + 1) (int (length models_part_000)),
         key := key s + 1\<rparr>
     else s)"

definition previousModel_part_000 :: "scene_state \<Rightarrow> scene_state" where
  "previousModel_part_000 s =
    (if \<not> isLoading s then
       s\<lparr>isLoading := True,
         currentModelIndex :=
           js_rem (currentModelIndex s - 1 + int (length models_part_000))
                  (int (length models_part_000)),
         key := key s + 1\<rparr>
     else s)"

definition selectModel_part_000 :: "int \<Rightarrow> scene_state \<Rightarrow> scene_state" where
  "selectModel_part_000 index s =
    (if \<not> isLoading s \<and> index \<noteq> currentModelIndex s then
       s\<lparr>isLoading := True,
         currentModelIndex := index,
         key := key s + 1\<rparr>
     else s)"

section \<open>Events and runs\<close>

text \<open>
  The component receives four kinds of event: a click on the right or the left navigation
  button, a click on one of the dot or thumbnail buttons (which calls \<^verbatim>\<open>selectModel\<close> with
  an index), and the \<^verbatim>\<open>onLoad\<close> callback of the \<^verbatim>\<open>Model\<close> component.
\<close>

datatype event = NextModel | PreviousModel | SelectModel int | HandleModelLoad

fun dispatch :: "scene_state \<Rightarrow> event \<Rightarrow> scene_state" where
  "dispatch s NextModel = nextModel s"
| "dispatch s PreviousModel = previousModel s"
| "dispatch s (SelectModel index) = selectModel index s"
| "dispatch s HandleModelLoad = handleModelLoad s"

text \<open>The state after a sequence of events, and the list of the states passed through.\<close>

fun run :: "scene_state \<Rightarrow> event list \<Rightarrow> scene_state" where
  "run s [] = s"
| "run s (e # es) = run (dispatch s e) es"

fun trace :: "scene_state \<Rightarrow> event list \<Rightarrow> scene_state list" where
  "trace s [] = []"
| "trace s (e # es) = dispatch s e # trace (dispatch s e) es"

text \<open>
  The condition each navigation handler tests before it updates anything.
  \<^verbatim>\<open>handleModelLoad\<close> tests nothing and is not a navigation action.
\<close>

fun guard_passes :: "scene_state \<Rightarrow> event \<Rightarrow> bool" where
  "guard_passes s NextModel = (\<not> isLoading s)"
| "guard_passes s PreviousModel = (\<not> isLoading s)"
| "guard_passes s (SelectModel index) = (\<not> isLoading s \<and> index \<noteq> currentModelIndex s)"
| "guard_passes s HandleModelLoad = False"

text \<open>An index that \<^verbatim>\<open>models[...]\<close> can be read at.\<close>

definition valid_index :: "int \<Rightarrow> bool" where
  "valid_index i = (0 \<le> i \<and> i < int (length models))"

text \<open>
  The buttons that call \<^verbatim>\<open>selectModel\<close> are produced by
  \<^verbatim>\<open>models.map((_, index) => ...)\<close>, so the user interface passes array indexes only.
\<close>

fun ui_event :: "event \<Rightarrow> bool" where
  "ui_event (SelectModel index) = valid_index index"
| "ui_event _ = True"

text \<open>
  The specification's view of a state: the triple
  (\<open>activeIndex\<close>, \<open>isAssetReady\<close>, \<open>generation\<close>).
\<close>

definition view :: "scene_state \<Rightarrow> int \<times> bool \<times> int" where
  "view s = (currentModelIndex s, \<not> isLoading s, key s)"

section \<open>Basic facts\<close>

lemma models_length: "length models = 5"
  by (simp add: models_def)

lemma js_rem_nonneg: "0 \<le> a \<Longrightarrow> js_rem a b = a mod \<bar>b\<bar>"
  by (cases "a = 0") (simp_all add: js_rem_def)

lemma nextModel_index:
  "\<not> isLoading s \<Longrightarrow> 0 \<le> currentModelIndex s \<Longrightarrow>
     currentModelIndex (nextModel s) = (currentModelIndex s + 1) mod 5"
  by (simp add: nextModel_def models_length js_rem_nonneg)

lemma previousModel_index:
  "\<not> isLoading s \<Longrightarrow> 0 \<le> currentModelIndex s \<Longrightarrow>
     currentModelIndex (previousModel s) = (currentModelIndex s - 1 + 5) mod 5"
  by (simp add: previousModel_def models_length js_rem_nonneg)

lemma dispatch_valid_index:
  assumes "valid_index (currentModelIndex s)" and "ui_event e"
  shows "valid_index (currentModelIndex (dispatch s e))"
proof (cases e)
  case NextModel
  show ?thesis
  proof (cases "isLoading s")
    case True
    with assms NextModel show ?thesis by (simp add: nextModel_def)
  next
    case False
    with assms have "currentModelIndex (nextModel s) = (currentModelIndex s + 1) mod 5"
      by (simp add: nextModel_index valid_index_def)
    with NextModel show ?thesis by (simp add: valid_index_def models_length)
  qed
next
  case PreviousModel
  show ?thesis
  proof (cases "isLoading s")
    case True
    with assms PreviousModel show ?thesis by (simp add: previousModel_def)
  next
    case False
    with assms have "currentModelIndex (previousModel s) = (currentModelIndex s - 1 + 5) mod 5"
      by (simp add: previousModel_index valid_index_def)
    with PreviousModel show ?thesis by (simp add: valid_index_def models_length)
  qed
next
  case (SelectModel index)
  with assms show ?thesis by (simp add: selectModel_def)
next
  case HandleModelLoad
  with assms show ?thesis by (simp add: handleModelLoad_def)
qed

lemma run_valid_index:
  "valid_index (currentModelIndex s) \<Longrightarrow> list_all ui_event es \<Longrightarrow>
     valid_index (currentModelIndex (run s es))"
  by (induction es arbitrary: s) (simp_all add: dispatch_valid_index)

lemma dispatch_key:
  "key (dispatch s e) = (if guard_passes s e then key s + 1 else key s)"
  by (cases e)
     (simp_all add: nextModel_def previousModel_def selectModel_def handleModelLoad_def)

lemma run_key_mono: "key s \<le> key (run s es)"
proof (induction es arbitrary: s)
  case Nil
  show ?case by simp
next
  case (Cons e es)
  have "key s \<le> key (dispatch s e)" by (simp add: dispatch_key)
  also have "\<dots> \<le> key (run (dispatch s e) es)" by (rule Cons.IH)
  finally show ?case by simp
qed

section \<open>The index stays in the catalog\<close>

text \<open>
  C1, as stated, fails: \<^verbatim>\<open>selectModel\<close> stores whatever index it is given. After the
  first asset has loaded, \<^verbatim>\<open>selectModel(7)\<close> sets \<^verbatim>\<open>currentModelIndex\<close> to 7, which is
  outside the five-entry catalog.
\<close>

theorem selectModel_out_of_range:
  "\<not> valid_index (currentModelIndex (run mount [HandleModelLoad, SelectModel 7]))"
  by (simp add: mount_def handleModelLoad_def selectModel_def valid_index_def models_length)

text \<open>
  C1, amended. Along every sequence of events from the mount state in which
  \<^verbatim>\<open>selectModel\<close> is called with indexes of the catalog only (as the buttons of the user
  interface do), \<^verbatim>\<open>currentModelIndex\<close> stays in the range from 0 up to, and not including,
  \<^verbatim>\<open>models.length\<close>.
\<close>

theorem currentModelIndex_in_range:
  "list_all ui_event es \<Longrightarrow> valid_index (currentModelIndex (run mount es))"
  by (rule run_valid_index) (simp add: mount_def valid_index_def models_length)

theorem currentModelIndex_in_range_witness:
  "list_all ui_event [HandleModelLoad, SelectModel 4, HandleModelLoad, NextModel]
   \<and> valid_index
        (currentModelIndex (run mount [HandleModelLoad, SelectModel 4, HandleModelLoad, NextModel]))"
  using currentModelIndex_in_range [of "[HandleModelLoad, SelectModel 4, HandleModelLoad, NextModel]"]
  by (simp add: valid_index_def models_length)

section \<open>Next model\<close>

text \<open>
  C2, as stated, fails: it speaks of every state with \<open>isAssetReady\<close> true, and
  \<^verbatim>\<open>selectModel\<close> can store a negative index. After \<^verbatim>\<open>handleModelLoad\<close>,
  \<^verbatim>\<open>selectModel(-3)\<close> and \<^verbatim>\<open>handleModelLoad\<close> the state is \<open>(-3, true, 1)\<close>; there
  \<^verbatim>\<open>nextModel\<close> computes \<^verbatim>\<open>(-3 + 1) % 5\<close>, which is \<open>-2\<close> since \<^verbatim>\<open>%\<close> truncates towards
  zero, whereas \<open>(-3 + 1) mod 5\<close> is 3.
\<close>

theorem nextModel_negative_index:
  "view (run mount [HandleModelLoad, SelectModel (- 3), HandleModelLoad]) = (- 3, True, 1)
   \<and> currentModelIndex
        (nextModel (run mount [HandleModelLoad, SelectModel (- 3), HandleModelLoad])) = - 2
   \<and> (currentModelIndex (run mount [HandleModelLoad, SelectModel (- 3), HandleModelLoad]) + 1)
        mod int (length models) = 3
   \<and> currentModelIndex
        (nextModel (run mount [HandleModelLoad, SelectModel (- 3), HandleModelLoad]))
      \<noteq> (currentModelIndex (run mount [HandleModelLoad, SelectModel (- 3), HandleModelLoad]) + 1)
          mod int (length models)"
  by (simp add: view_def mount_def handleModelLoad_def selectModel_def nextModel_def
      js_rem_def models_length)

text \<open>
  C2, amended. In every state whose \<^verbatim>\<open>currentModelIndex\<close> is an index of the catalog and
  whose \<^verbatim>\<open>isLoading\<close> is false (\<open>isAssetReady\<close> true), \<^verbatim>\<open>nextModel\<close> sets
  \<^verbatim>\<open>currentModelIndex\<close> to \<open>(currentModelIndex + 1) mod models.length\<close>, sets \<^verbatim>\<open>isLoading\<close>
  to true (\<open>isAssetReady\<close> false) and adds one to \<^verbatim>\<open>key\<close>; in every state with
  \<^verbatim>\<open>isLoading\<close> true it leaves the state unchanged.
\<close>

theorem nextModel_valid_index:
  "(valid_index (currentModelIndex s) \<and> \<not> isLoading s \<longrightarrow>
      nextModel s =
        \<lparr>currentModelIndex = (currentModelIndex s + 1) mod int (length models),
         isLoading = True, key = key s + 1\<rparr>)
   \<and> (isLoading s \<longrightarrow> nextModel s = s)"
  by (simp add: nextModel_def valid_index_def js_rem_nonneg)

theorem nextModel_valid_index_witness:
  "valid_index (currentModelIndex \<lparr>currentModelIndex = 4, isLoading = False, key = 7\<rparr>)
   \<and> \<not> isLoading \<lparr>currentModelIndex = 4, isLoading = False, key = 7\<rparr>
   \<and> nextModel \<lparr>currentModelIndex = 4, isLoading = False, key = 7\<rparr>
       = \<lparr>currentModelIndex = 0, isLoading = True, key = 8\<rparr>
   \<and> isLoading mount \<and> nextModel mount = mount"
  using nextModel_valid_index [of "\<lparr>currentModelIndex = 4, isLoading = False, key = 7\<rparr>"]
    nextModel_valid_index [of mount]
  by (simp add: mount_def models_length valid_index_def)

section \<open>Select model\<close>

text \<open>
  C3. \<^verbatim>\<open>selectModel(index)\<close> leaves the state unchanged when \<^verbatim>\<open>isLoading\<close> is true
  (\<open>isAssetReady\<close> false) or \<^verbatim>\<open>index\<close> equals \<^verbatim>\<open>currentModelIndex\<close>; otherwise it sets
  \<^verbatim>\<open>currentModelIndex\<close> to \<^verbatim>\<open>index\<close>, \<^verbatim>\<open>isLoading\<close> to true and adds one to \<^verbatim>\<open>key\<close>.
\<close>

theorem selectModel_spec:
  "(isLoading s \<or> i = currentModelIndex s \<longrightarrow> selectModel i s = s)
   \<and> (\<not> (isLoading s \<or> i = currentModelIndex s) \<longrightarrow>
        selectModel i s = \<lparr>currentModelIndex = i, isLoading = True, key = key s + 1\<rparr>)"
  by (auto simp add: selectModel_def)

theorem selectModel_spec_witness:
  "(isLoading mount \<or> 3 = currentModelIndex mount)
   \<and> selectModel 3 mount = mount
   \<and> \<not> (isLoading (handleModelLoad mount) \<or> 3 = currentModelIndex (handleModelLoad mount))
   \<and> selectModel 3 (handleModelLoad mount)
       = \<lparr>currentModelIndex = 3, isLoading = True, key = 1\<rparr>"
  using selectModel_spec [of mount 3] selectModel_spec [of "handleModelLoad mount" 3]
  by (simp add: mount_def handleModelLoad_def)

section \<open>Actions while loading\<close>

text \<open>
  C4. In a state with \<^verbatim>\<open>isLoading\<close> true (\<open>isAssetReady\<close> false), \<^verbatim>\<open>nextModel\<close>,
  \<^verbatim>\<open>previousModel\<close> and \<^verbatim>\<open>selectModel(i)\<close>, for any \<^verbatim>\<open>i\<close>, return the whole state
  unchanged.
\<close>

theorem loading_noop:
  "isLoading s \<Longrightarrow> nextModel s = s \<and> previousModel s = s \<and> selectModel i s = s"
  by (simp add: nextModel_def previousModel_def selectModel_def)

theorem loading_noop_witness:
  "isLoading mount \<and> nextModel mount = mount \<and> previousModel mount = mount
   \<and> selectModel 3 mount = mount"
proof -
  have h: "isLoading mount" by (simp add: mount_def)
  from h loading_noop [OF h, of 3] show ?thesis by simp
qed

section \<open>The key counter\<close>

text \<open>
  C5. \<^verbatim>\<open>key\<close> (\<open>generation\<close>) grows by exactly one on every call of \<^verbatim>\<open>nextModel\<close>,
  \<^verbatim>\<open>previousModel\<close> or \<^verbatim>\<open>selectModel\<close> whose guard passes, is unchanged on every such call
  whose guard fails and on \<^verbatim>\<open>handleModelLoad\<close>, and so never decreases along a sequence of
  events.
\<close>

theorem key_counts_accepted:
  "key (dispatch s e) = (if guard_passes s e then key s + 1 else key s)
   \<and> key (handleModelLoad s) = key s
   \<and> key s \<le> key (run s es)"
  by (simp add: dispatch_key run_key_mono handleModelLoad_def)

section \<open>Next, then previous\<close>

text \<open>
  C6. From a state with a valid index and \<^verbatim>\<open>isLoading\<close> false, \<^verbatim>\<open>nextModel\<close>, then
  \<^verbatim>\<open>handleModelLoad\<close> (after which \<^verbatim>\<open>isLoading\<close> is false again), then \<^verbatim>\<open>previousModel\<close>
  brings \<^verbatim>\<open>currentModelIndex\<close> back to where it was. \<^verbatim>\<open>previousModel\<close> computes
  \<open>(currentModelIndex - 1 + models.length) mod models.length\<close>, so at index 0 it yields
  \<open>models.length - 1\<close>.
\<close>

theorem next_then_previous:
  assumes "valid_index (currentModelIndex s)" and "\<not> isLoading s"
  shows "\<not> isLoading (handleModelLoad (nextModel s))
    \<and> currentModelIndex (previousModel (handleModelLoad (nextModel s))) = currentModelIndex s
    \<and> currentModelIndex (previousModel s)
        = (currentModelIndex s - 1 + int (length models)) mod int (length models)
    \<and> (currentModelIndex s = 0 \<longrightarrow>
         currentModelIndex (previousModel s) = int (length models) - 1)"
proof -
  let ?i = "currentModelIndex s"
  let ?t = "handleModelLoad (nextModel s)"
  from assms have range: "0 \<le> ?i" "?i < 5"
    by (simp_all add: valid_index_def models_length)
  have loaded: "\<not> isLoading ?t"
    by (simp add: handleModelLoad_def)
  from assms range have "currentModelIndex ?t = (?i + 1) mod 5"
    by (simp add: handleModelLoad_def nextModel_index)
  moreover from this have "0 \<le> currentModelIndex ?t"
    by simp
  ultimately have "currentModelIndex (previousModel ?t) = ((?i + 1) mod 5 - 1 + 5) mod 5"
    using loaded by (simp add: previousModel_index)
  also from range have "\<dots> = ?i"
    by presburger
  finally have returned: "currentModelIndex (previousModel ?t) = ?i" .
  from assms range have prev: "currentModelIndex (previousModel s) = (?i - 1 + 5) mod 5"
    by (simp add: previousModel_index)
  from loaded returned prev show ?thesis
    by (simp add: models_length)
qed

theorem next_then_previous_witness:
  "valid_index (currentModelIndex (handleModelLoad mount))
   \<and> \<not> isLoading (handleModelLoad mount)
   \<and> currentModelIndex (handleModelLoad mount) = 0
   \<and> currentModelIndex
        (previousModel (handleModelLoad (nextModel (handleModelLoad mount)))) = 0
   \<and> currentModelIndex (previousModel (handleModelLoad mount)) = 4"
proof -
  have v: "valid_index (currentModelIndex (handleModelLoad mount))"
    by (simp add: valid_index_def handleModelLoad_def mount_def models_length)
  have l: "\<not> isLoading (handleModelLoad mount)"
    by (simp add: handleModelLoad_def)
  have z: "currentModelIndex (handleModelLoad mount) = 0"
    by (simp add: handleModelLoad_def mount_def)
  from v l z next_then_previous [OF v l] show ?thesis
    by (simp add: models_length)
qed

section \<open>Select, then loaded\<close>

text \<open>
  C7, as stated, fails in states with \<^verbatim>\<open>isLoading\<close> true, where \<^verbatim>\<open>selectModel\<close> does
  nothing: in the mount state, \<^verbatim>\<open>selectModel(3)\<close> followed by \<^verbatim>\<open>handleModelLoad\<close> leaves
  \<^verbatim>\<open>currentModelIndex\<close> at 0, although 3 is an index of the catalog.
\<close>

theorem select_while_loading:
  "valid_index 3
   \<and> \<not> (\<not> isLoading (handleModelLoad (selectModel 3 mount))
          \<and> currentModelIndex (handleModelLoad (selectModel 3 mount)) = 3)"
  by (simp add: valid_index_def models_length mount_def selectModel_def handleModelLoad_def)

text \<open>
  C7, amended. For any index \<^verbatim>\<open>i\<close> and any state, \<^verbatim>\<open>selectModel(i)\<close> followed by
  \<^verbatim>\<open>handleModelLoad\<close> yields a state with \<^verbatim>\<open>isLoading\<close> false (\<open>isAssetReady\<close> true); its
  \<^verbatim>\<open>currentModelIndex\<close> is \<^verbatim>\<open>i\<close> when \<^verbatim>\<open>isLoading\<close> was false before the call, and is the
  index of the state before the call when \<^verbatim>\<open>isLoading\<close> was true.
\<close>

theorem select_then_loaded:
  "\<not> isLoading (handleModelLoad (selectModel i s))
   \<and> currentModelIndex (handleModelLoad (selectModel i s))
       = (if isLoading s then currentModelIndex s else i)"
  by (simp add: selectModel_def handleModelLoad_def)

section \<open>Asset loaded\<close>

text \<open>
  C8. \<^verbatim>\<open>handleModelLoad\<close> (the specification's \<open>notifyAssetLoaded\<close>) clears \<^verbatim>\<open>isLoading\<close>,
  that is, sets \<open>isAssetReady\<close> to true, and leaves \<^verbatim>\<open>currentModelIndex\<close> and \<^verbatim>\<open>key\<close> as
  they are; calling it twice gives the same state as calling it once.
\<close>

theorem handleModelLoad_frame:
  "\<not> isLoading (handleModelLoad s)
   \<and> currentModelIndex (handleModelLoad s) = currentModelIndex s
   \<and> key (handleModelLoad s) = key s
   \<and> handleModelLoad (handleModelLoad s) = handleModelLoad s"
  by (simp add: handleModelLoad_def)

section \<open>A concrete session\<close>

text \<open>
  C9. Over the five-entry catalog, from the mount state, which the specification writes
  \<open>(0, false, 0)\<close>, the events \<^verbatim>\<open>handleModelLoad\<close>, \<^verbatim>\<open>nextModel\<close>, \<^verbatim>\<open>handleModelLoad\<close>,
  \<^verbatim>\<open>selectModel(4)\<close>, \<^verbatim>\<open>previousModel\<close>, \<^verbatim>\<open>handleModelLoad\<close>, \<^verbatim>\<open>previousModel\<close> pass through
  the states \<open>(0, true, 0)\<close>, \<open>(1, false, 1)\<close>, \<open>(1, true, 1)\<close>, \<open>(4, false, 2)\<close>,
  \<open>(4, false, 2)\<close>, \<open>(4, true, 2)\<close> and end at \<open>(3, false, 3)\<close>.
\<close>

theorem scenario:
  "length models = 5
   \<and> view mount = (0, False, 0)
   \<and> map view
        (trace mount
          [HandleModelLoad, NextModel, HandleModelLoad, SelectModel 4, PreviousModel,
           HandleModelLoad, PreviousModel])
      = [(0, True, 0), (1, False, 1), (1, True, 1), (4, False, 2), (4, False, 2),
         (4, True, 2), (3, False, 3)]"
  by (simp add: models_length view_def mount_def handleModelLoad_def nextModel_def
      previousModel_def selectModel_def js_rem_def)

section \<open>The two source files\<close>

text \<open>
  C10. The catalog of \<^verbatim>\<open>src/unnamed/part_000\<close> is the catalog of \<^verbatim>\<open>src/src/Scene.jsx\<close>,
  five entries in the same order; the two components start from the same state, and each
  handler of one file computes the same successor state as the handler of the same name in
  the other, for every state and every argument.
\<close>

theorem part_000_same_controller:
  "models_part_000 = models
   \<and> length models = 5
   \<and> mount_part_000 = mount
   \<and> nextModel_part_000 s = nextModel s
   \<and> previousModel_part_000 s = previousModel s
   \<and> selectModel_part_000 i s = selectModel i s
   \<and> handleModelLoad_part_000 s = handleModelLoad s"
proof -
  have same: "models_part_000 = models"
    by (simp add: models_part_000_def models_def)
  then show ?thesis
    by (simp add: models_length mount_part_000_def mount_def
        nextModel_part_000_def nextModel_def previousModel_part_000_def previousModel_def
        selectModel_part_000_def selectModel_def handleModelLoad_part_000_def
        handleModelLoad_def)
qed

end
